theory Spec2Isabelle
  imports Complex_Main
begin

section \<open>Scope of the embedding\<close>

text \<open>
  The program is \<^verbatim>\<open>src/app.py\<close>, a Streamlit script that is re-executed from top to
  bottom on every user interaction. One execution (a render pass) reads the widget
  values, issues HTTP requests to a backend and emits widgets.

  \<^item> The backend is a parameter: a function from the number of requests already issued
    in the pass and the request to the reply, where \<open>None\<close> stands for a transport
    exception raised by \<^verbatim>\<open>requests.get\<close> or \<^verbatim>\<open>requests.post\<close>.
  \<^item> A response carries its status code, its decoded JSON body (\<open>None\<close> when
    \<^verbatim>\<open>response.json()\<close> raises) and its text.
  \<^item> JSON bodies are the two shapes the backend's interface documents: one object, or a
    list of objects, the members of an object being scalars (null, booleans, integers,
    floats, strings). Nested arrays and objects inside a member are not modelled.
  \<^item> Python's \<^verbatim>\<open>int\<close> is \<open>int\<close>. A Python \<^verbatim>\<open>float\<close> is the exact rational value of the
    double, or an infinity, or NaN; arithmetic results are rounded to the nearest double,
    ties to even. The sign of a zero is not modelled.
  \<^item> A Python \<^verbatim>\<open>str\<close> is a \<open>string\<close>: its characters are the code points below 256.
  \<^item> An exception that no \<^verbatim>\<open>try\<close> catches ends the pass: the widgets emitted so far
    stay, nothing after the raising statement runs.
  \<^item> A pandas frame is its column names and its rows; a cell a row has no value for is
    NaN. Cells keep the decoded Python value: the conversion of a whole column to one
    numeric type is not modelled, it changes no integer below \<open>2 ^ 53\<close>.
  \<^item> The literal texts of headings and labels are written without their emoji.
\<close>

section \<open>Python values\<close>

datatype exn =
  ConnectionError | JSONDecodeError | KeyError | TypeError | ValueError
  | AttributeError | OverflowError

datatype pyfloat = Finite rat | Inf bool | NaN

datatype scalar = PNone | PBool bool | PInt int | PFloat pyfloat | PStr string

type_synonym row = "(string \<times> scalar) list"

datatype body = Object row | Rows "row list"

subsection \<open>Doubles\<close>

function bits :: "int \<Rightarrow> int" where
  "bits n = (if n \<le> 0 then 0 else 1 + bits (n div 2))"
  by pat_completeness auto
termination
  by (relation "measure nat") auto

definition round_half_even :: "rat \<Rightarrow> int" where
  "round_half_even q =
     (let f = \<lfloor>q\<rfloor>; r = q - of_int f
      in if r < 1 / 2 then f
         else if 1 / 2 < r then f + 1
         else if even f then f else f + 1)"

text \<open>The binary exponent \<open>e\<close> of a positive rational: \<open>2 ^ e \<le> a < 2 ^ (e + 1)\<close>.\<close>

definition exponent :: "rat \<Rightarrow> int" where
  "exponent a =
     (if 1 \<le> a then bits \<lfloor>a\<rfloor> - 1
      else let k = bits \<lfloor>1 / a\<rfloor>
           in if a = 2 powi (1 - k) then 1 - k else - k)"

text \<open>
  Rounding to the nearest double, ties to even: 53 significant bits, the least exponent
  \<open>- 1022\<close> (below it the spacing stays \<open>2 ^ - 1074\<close>), overflow to an infinity.
\<close>

definition fl :: "rat \<Rightarrow> pyfloat" where
  "fl q =
     (if q = 0 then Finite 0
      else let a = \<bar>q\<bar>;
               e = max (exponent a) (- 1022);
               ulp = 2 powi (e - 52);
               m = round_half_even (a / ulp)
           in if 1023 < e \<or> (e = 1023 \<and> m = 2 ^ 53) then Inf (q < 0)
              else Finite (if q < 0 then - (of_int m * ulp) else of_int m * ulp))"

text \<open>\<^verbatim>\<open>float(n)\<close> for an \<^verbatim>\<open>int\<close>: raises where the double would overflow.\<close>

definition float_of_int :: "int \<Rightarrow> exn + pyfloat" where
  "float_of_int n =
     (case fl (of_int n) of Finite r \<Rightarrow> Inr (Finite r) | _ \<Rightarrow> Inl OverflowError)"

text \<open>\<^verbatim>\<open>x * n\<close> for a float \<open>x\<close> and a positive \<^verbatim>\<open>int\<close> \<open>n\<close> below \<open>2 ^ 53\<close>.\<close>

definition fmul :: "pyfloat \<Rightarrow> int \<Rightarrow> pyfloat" where
  "fmul x n = (case x of Finite r \<Rightarrow> fl (r * of_int n) | Inf s \<Rightarrow> Inf s | NaN \<Rightarrow> NaN)"

subsection \<open>Formatting numbers\<close>

definition digit :: "int \<Rightarrow> char" where
  "digit d = char_of (48 + d)"

function digits :: "int \<Rightarrow> string" where
  "digits n = (if n < 10 then [digit n] else digits (n div 10) @ [digit (n mod 10)])"
  by pat_completeness auto
termination
  by (relation "measure nat") auto

text \<open>The option \<^verbatim>\<open>,\<close> of a format specification: a comma before every group of three digits.\<close>

fun group3 :: "string \<Rightarrow> string" where
  "group3 ds =
     (if length ds \<le> 3 then ds
      else group3 (take (length ds - 3) ds) @ '','' @ drop (length ds - 3) ds)"

definition zero_pad :: "nat \<Rightarrow> string \<Rightarrow> string" where
  "zero_pad w ds = replicate (w - length ds) (CHR ''0'') @ ds"

text \<open>
  \<^verbatim>\<open>format(x, ",.pf")\<close> (\<open>grouped\<close>) and \<^verbatim>\<open>format(x, ".pf")\<close> for a float: the exact value
  rounded to \<open>p\<close> decimals, ties to even.
\<close>

definition format_f :: "bool \<Rightarrow> nat \<Rightarrow> pyfloat \<Rightarrow> string" where
  "format_f grouped p x =
     (case x of
        NaN \<Rightarrow> ''nan''
      | Inf s \<Rightarrow> (if s then ''-inf'' else ''inf'')
      | Finite r \<Rightarrow>
          (let n = round_half_even (\<bar>r\<bar> * 10 ^ p);
               whole = digits (n div 10 ^ p);
               frac = zero_pad p (digits (n mod 10 ^ p))
           in (if r < 0 then ''-'' else '''')
              @ (if grouped then group3 whole else whole)
              @ (if p = 0 then '''' else ''.'' @ frac)))"

text \<open>
  The same for any value: an \<^verbatim>\<open>int\<close> or \<^verbatim>\<open>bool\<close> is converted to a float first, a \<^verbatim>\<open>str\<close>
  has no format code \<^verbatim>\<open>f\<close> (ValueError), \<^verbatim>\<open>None\<close> takes no format specification
  (TypeError).
\<close>

fun py_format_f :: "bool \<Rightarrow> nat \<Rightarrow> scalar \<Rightarrow> exn + string" where
  "py_format_f g p (PFloat x) = Inr (format_f g p x)"
| "py_format_f g p (PInt n) = map_sum id (format_f g p) (float_of_int n)"
| "py_format_f g p (PBool b) = map_sum id (format_f g p) (float_of_int (if b then 1 else 0))"
| "py_format_f g p (PStr s) = Inl ValueError"
| "py_format_f g p PNone = Inl TypeError"

text \<open>\<^verbatim>\<open>s * n\<close> for a \<^verbatim>\<open>str\<close>: \<open>n\<close> copies of \<open>s\<close>.\<close>

definition str_times :: "string \<Rightarrow> nat \<Rightarrow> string" where
  "str_times s n = concat (replicate n s)"

text \<open>\<^verbatim>\<open>v * 1_000_000\<close>: exact on integers, rounded on floats, repetition on strings.\<close>

fun times_million :: "scalar \<Rightarrow> exn + scalar" where
  "times_million (PInt n) = Inr (PInt (n * 1000000))"
| "times_million (PBool b) = Inr (PInt (if b then 1000000 else 0))"
| "times_million (PFloat x) = Inr (PFloat (fmul x 1000000))"
| "times_million (PStr s) = Inr (PStr (str_times s 1000000))"
| "times_million PNone = Inl TypeError"

subsection \<open>Strings\<close>

text \<open>\<^verbatim>\<open>str.isspace\<close> on the code points below 256.\<close>

definition isspace :: "char \<Rightarrow> bool" where
  "isspace c = ((of_char c :: int) \<in> set [9, 10, 11, 12, 13, 28, 29, 30, 31, 32, 133, 160])"

text \<open>\<^verbatim>\<open>s.strip()\<close>\<close>

definition strip :: "string \<Rightarrow> string" where
  "strip s = rev (dropWhile isspace (rev (dropWhile isspace s)))"

text \<open>\<^verbatim>\<open>s.replace("%", "")\<close>: every occurrence is removed.\<close>

definition replace_percent :: "string \<Rightarrow> string" where
  "replace_percent s = filter (\<lambda>c. c \<noteq> CHR ''%'') s"

text \<open>\<^verbatim>\<open>bool(v)\<close>\<close>

fun truthy :: "scalar \<Rightarrow> bool" where
  "truthy PNone = False"
| "truthy (PBool b) = b"
| "truthy (PInt n) = (n \<noteq> 0)"
| "truthy (PFloat x) = (x \<noteq> Finite 0)"
| "truthy (PStr s) = (s \<noteq> [])"

text \<open>
  \<^verbatim>\<open>a == b\<close>, which is also the equality of dictionary keys and set elements: numbers
  and booleans compare by value, NaN equals nothing.
\<close>

fun num_val :: "scalar \<Rightarrow> rat option" where
  "num_val (PBool b) = Some (if b then 1 else 0)"
| "num_val (PInt n) = Some (of_int n)"
| "num_val (PFloat (Finite r)) = Some r"
| "num_val v = None"

fun py_eq :: "scalar \<Rightarrow> scalar \<Rightarrow> bool" where
  "py_eq (PStr s) (PStr t) = (s = t)"
| "py_eq PNone PNone = True"
| "py_eq (PFloat (Inf s)) (PFloat (Inf t)) = (s = t)"
| "py_eq a b = (case (num_val a, num_val b) of (Some x, Some y) \<Rightarrow> x = y | _ \<Rightarrow> False)"

subsection \<open>Exceptions\<close>

text \<open>A computation that may raise; \<open>and_then\<close> runs the next step when nothing was raised.\<close>

definition and_then :: "exn + 'a \<Rightarrow> ('a \<Rightarrow> exn + 'b) \<Rightarrow> exn + 'b" where
  "and_then m f = (case m of Inl e \<Rightarrow> Inl e | Inr a \<Rightarrow> f a)"

fun collect :: "('a \<Rightarrow> exn + 'b) \<Rightarrow> 'a list \<Rightarrow> exn + 'b list" where
  "collect f [] = Inr []"
| "collect f (x # xs) =
     and_then (f x) (\<lambda>y. and_then (collect f xs) (\<lambda>ys. Inr (y # ys)))"

subsection \<open>Dictionaries and JSON bodies\<close>

text \<open>\<^verbatim>\<open>d[k]\<close> and \<^verbatim>\<open>d.get(k, default)\<close> on a \<^verbatim>\<open>dict\<close>.\<close>

definition subscript :: "row \<Rightarrow> string \<Rightarrow> exn + scalar" where
  "subscript d k = (case map_of d k of None \<Rightarrow> Inl KeyError | Some v \<Rightarrow> Inr v)"

definition dict_get :: "row \<Rightarrow> string \<Rightarrow> scalar \<Rightarrow> scalar" where
  "dict_get d k dflt = (case map_of d k of None \<Rightarrow> dflt | Some v \<Rightarrow> v)"

text \<open>\<^verbatim>\<open>data.get(k, default)\<close> on a decoded body: a \<^verbatim>\<open>list\<close> has no \<^verbatim>\<open>get\<close>.\<close>

fun body_get :: "body \<Rightarrow> string \<Rightarrow> scalar \<Rightarrow> exn + scalar" where
  "body_get (Object d) k dflt = Inr (dict_get d k dflt)"
| "body_get (Rows rs) k dflt = Inl AttributeError"

text \<open>\<^verbatim>\<open>data if isinstance(data, list) else [data]\<close>\<close>

fun as_list :: "body \<Rightarrow> row list" where
  "as_list (Rows rs) = rs"
| "as_list (Object d) = [d]"

text \<open>
  \<^verbatim>\<open>list(set(xs))\<close>: one element for each class of equal elements. Python leaves the order
  of the result open; here it is the order of the first occurrences.
\<close>

definition py_set :: "scalar list \<Rightarrow> scalar list" where
  "py_set xs = foldl (\<lambda>acc x. if list_ex (\<lambda>y. py_eq y x) acc then acc else acc @ [x]) [] xs"

subsection \<open>HTTP\<close>

datatype meth = GET | POST

record request =
  meth :: meth
  url :: string
  params :: "(string \<times> scalar list) list"
  json :: "body option"
  timeout :: "int option"

record response =
  status_code :: int
  body :: "body option"
  resp_text :: string

text \<open>\<^verbatim>\<open>response.json()\<close>\<close>

definition response_json :: "response \<Rightarrow> exn + body" where
  "response_json r = (case body r of None \<Rightarrow> Inl JSONDecodeError | Some b \<Rightarrow> Inr b)"

record env =
  BACKEND_URL :: string
  backend :: "nat \<Rightarrow> request \<Rightarrow> response option"

subsection \<open>pandas frames\<close>

record frame =
  columns :: "string list"
  rows :: "row list"

text \<open>\<^verbatim>\<open>pd.DataFrame(records)\<close> for a list of dictionaries.\<close>

definition DataFrame :: "row list \<Rightarrow> frame" where
  "DataFrame rs = \<lparr>columns = remdups (concat (map (map fst) rs)), rows = rs\<rparr>"

text \<open>\<^verbatim>\<open>df.empty\<close>: some axis has length 0.\<close>

definition empty :: "frame \<Rightarrow> bool" where
  "empty df = (rows df = [] \<or> columns df = [])"

text \<open>The value of column \<open>c\<close> in a row: KeyError without such a column, NaN for a missing cell.\<close>

definition cell :: "frame \<Rightarrow> row \<Rightarrow> string \<Rightarrow> exn + scalar" where
  "cell df r c =
     (if c \<notin> set (columns df) then Inl KeyError
      else Inr (dict_get r c (PFloat NaN)))"

text \<open>
  \<^verbatim>\<open>pd.DataFrame(data)\<close> without the normalisation to a list: a dictionary of scalars is
  refused (ValueError: with all scalar values an index must be passed), the empty
  dictionary gives the empty frame.
\<close>

fun DataFrame_of_body :: "body \<Rightarrow> exn + frame" where
  "DataFrame_of_body (Rows rs) = Inr (DataFrame rs)"
| "DataFrame_of_body (Object d) = (if d = [] then Inr (DataFrame []) else Inl ValueError)"

text \<open>
  \<^verbatim>\<open>pd.DataFrame(v)\<close> for a scalar \<open>v\<close>: \<^verbatim>\<open>None\<close> gives the empty frame, any other scalar
  is refused.
\<close>

definition DataFrame_of_scalar :: "scalar \<Rightarrow> exn + frame" where
  "DataFrame_of_scalar v = (if v = PNone then Inr (DataFrame []) else Inl ValueError)"

subsection \<open>\<^verbatim>\<open>float(s)\<close> for a string\<close>

definition is_digit :: "char \<Rightarrow> bool" where
  "is_digit c = (48 \<le> (of_char c :: int) \<and> (of_char c :: int) \<le> 57)"

definition lower :: "char \<Rightarrow> char" where
  "lower c =
     (if 65 \<le> (of_char c :: int) \<and> (of_char c :: int) \<le> 90
      then char_of ((of_char c :: int) + 32) else c)"

text \<open>Digits, single underscores allowed between two digits.\<close>

fun digitpart :: "string \<Rightarrow> bool" where
  "digitpart [] = False"
| "digitpart [c] = is_digit c"
| "digitpart (c # d # cs) =
     (is_digit c \<and> (if d = CHR ''_'' then digitpart cs else digitpart (d # cs)))"

definition int_of_digits :: "string \<Rightarrow> int" where
  "int_of_digits ds = foldl (\<lambda>n c. 10 * n + ((of_char c :: int) - 48)) 0 (filter is_digit ds)"

definition split_sign :: "string \<Rightarrow> bool \<times> string" where
  "split_sign t =
     (case t of
        [] \<Rightarrow> (False, [])
      | c # r \<Rightarrow> if c = CHR ''-'' then (True, r) else if c = CHR ''+'' then (False, r)
                 else (False, t))"

text \<open>
  Surrounding whitespace is dropped; then a sign, and \<^verbatim>\<open>inf\<close>, \<^verbatim>\<open>infinity\<close>, \<^verbatim>\<open>nan\<close> in
  any case, or a decimal numeral with an optional fraction and exponent. The value is
  rounded to the nearest double. Anything else raises ValueError.
\<close>

definition float_of_str :: "string \<Rightarrow> exn + pyfloat" where
  "float_of_str s =
     (let (neg, u) = split_sign (strip s);
          l = map lower u;
          is_e = (\<lambda>c. c = CHR ''e'' \<or> c = CHR ''E'');
          mant = takeWhile (\<lambda>c. \<not> is_e c) u;
          ex = dropWhile (\<lambda>c. \<not> is_e c) u;
          ip = takeWhile (\<lambda>c. c \<noteq> CHR ''.'') mant;
          fp = drop 1 (dropWhile (\<lambda>c. c \<noteq> CHR ''.'') mant);
          (eneg, ed) = split_sign (drop 1 ex);
          mant_ok = ((ip = [] \<or> digitpart ip) \<and> (fp = [] \<or> digitpart fp)
                     \<and> (ip \<noteq> [] \<or> fp \<noteq> []));
          ex_ok = (ex = [] \<or> digitpart ed);
          e = (if ex = [] then 0 else if eneg then - int_of_digits ed else int_of_digits ed);
          v = of_int (int_of_digits (ip @ fp)) / 10 ^ length (filter is_digit fp) * 10 powi e
      in if l = ''inf'' \<or> l = ''infinity'' then Inr (Inf neg)
         else if l = ''nan'' then Inr NaN
         else if mant_ok \<and> ex_ok then Inr (fl (if neg then - v else v))
         else Inl ValueError)"

section \<open>Widgets and user input\<close>

datatype chart_kind = Bar | Area

record chart =
  px_kind :: chart_kind
  px_data :: frame
  px_x :: string
  px_y :: string
  px_color :: string
  px_title :: string
  px_range_y :: "(int \<times> int) option"
  px_barmode :: "string option"

text \<open>
  \<^verbatim>\<open>px.bar\<close> and \<^verbatim>\<open>px.area\<close>: ValueError when \<^verbatim>\<open>x\<close>, \<^verbatim>\<open>y\<close> or \<^verbatim>\<open>color\<close> names no column of
  the frame. The colour sequence and \<^verbatim>\<open>text_auto\<close> are left out.
\<close>

definition px_chart ::
  "chart_kind \<Rightarrow> frame \<Rightarrow> string \<Rightarrow> string \<Rightarrow> string \<Rightarrow> string
     \<Rightarrow> (int \<times> int) option \<Rightarrow> string option \<Rightarrow> exn + chart" where
  "px_chart k df cx cy cc t ry bm =
     (if cx \<in> set (columns df) \<and> cy \<in> set (columns df) \<and> cc \<in> set (columns df)
      then Inr \<lparr>px_kind = k, px_data = df, px_x = cx, px_y = cy, px_color = cc,
                 px_title = t, px_range_y = ry, px_barmode = bm\<rparr>
      else Inl ValueError)"

datatype widget =
    Sidebar_image string
  | Sidebar_markdown string
  | Sidebar_multiselect string "scalar list" "scalar list"
  | Sidebar_slider string int int int
  | Sidebar_selectbox string "string list"
  | Sidebar_download_button string string string string
  | Sidebar_info string
  | Sidebar_error string exn
  | Title string
  | Header string
  | Markdown string
  | Markdown_value scalar
  | Markdown_fstring string scalar string
  | Option_menu "string list"
  | Text_input string
  | Button string
  | Selectbox string "scalar list"
  | Multiselect string "scalar list" "scalar list"
  | Metric string string
  | Dataframe frame
  | Plotly_chart chart
  | Warning string
  | Error string

datatype view = Halal_Ecommerce | ICT_Fintech | AI_Insights | Data_Explorer

datatype dataset = halal_ecommerce | ict_services | internet_penetration | islamic_fintech

fun dataset_name :: "dataset \<Rightarrow> string" where
  "dataset_name halal_ecommerce = ''halal_ecommerce''"
| "dataset_name ict_services = ''ict_services''"
| "dataset_name internet_penetration = ''internet_penetration''"
| "dataset_name islamic_fintech = ''islamic_fintech''"

text \<open>
  What the input widgets return in one pass. \<open>selected\<close> is the navigation menu,
  \<open>button_pressed\<close> the button \<^verbatim>\<open>Get AI Analysis\<close> (it exists in the AI view only),
  \<open>filter_country\<close> and \<open>country_profile\<close> choose among the options they are given
  (\<open>None\<close>: nothing to choose from). The sidebar's country and year selections are read
  by nothing and are left out.
\<close>

record ui =
  selected :: view
  user_query :: string
  button_pressed :: bool
  data_type :: dataset
  filter_country :: "scalar list \<Rightarrow> scalar list"
  country_profile :: "scalar list \<Rightarrow> scalar option"
  selected_report :: dataset

section \<open>The render pass\<close>

record state =
  trace :: "request list"
  page :: "widget list"

type_synonym 'a act = "state \<Rightarrow> (exn + 'a) \<times> state"

definition ret :: "'a \<Rightarrow> 'a act" where
  "ret a s = (Inr a, s)"

definition lift :: "exn + 'a \<Rightarrow> 'a act" where
  "lift m s = (m, s)"

definition bnd :: "'a act \<Rightarrow> ('a \<Rightarrow> 'b act) \<Rightarrow> 'b act" where
  "bnd m f s = (case m s of (Inl e, s') \<Rightarrow> (Inl e, s') | (Inr a, s') \<Rightarrow> f a s')"

definition seq :: "unit act \<Rightarrow> 'b act \<Rightarrow> 'b act" where
  "seq m k = bnd m (\<lambda>_. k)"

fun block :: "unit act list \<Rightarrow> unit act" where
  "block [] = ret ()"
| "block (m # ms) = seq m (block ms)"

text \<open>\<^verbatim>\<open>try: m except: h\<close>\<close>

definition try_except :: "'a act \<Rightarrow> (exn \<Rightarrow> 'a act) \<Rightarrow> 'a act" where
  "try_except m h s = (case m s of (Inl e, s') \<Rightarrow> h e s' | (Inr a, s') \<Rightarrow> (Inr a, s'))"

definition emit :: "widget \<Rightarrow> unit act" where
  "emit w s = (Inr (), s\<lparr>page := page s @ [w]\<rparr>)"

text \<open>
  \<^verbatim>\<open>requests.get\<close> and \<^verbatim>\<open>requests.post\<close>: the request is recorded, the backend's reply is
  the response or the transport exception.
\<close>

definition send :: "env \<Rightarrow> request \<Rightarrow> response act" where
  "send ev req s =
     (case backend ev (length (trace s)) req of
        None \<Rightarrow> Inl ConnectionError
      | Some r \<Rightarrow> Inr r,
      s\<lparr>trace := trace s @ [req]\<rparr>)"

definition get_request :: "env \<Rightarrow> string \<Rightarrow> (string \<times> scalar list) list \<Rightarrow> int option \<Rightarrow> request" where
  "get_request ev path ps t =
     \<lparr>meth = GET, url = BACKEND_URL ev @ path, params = ps, json = None, timeout = t\<rparr>"

definition post_request :: "env \<Rightarrow> string \<Rightarrow> body \<Rightarrow> request" where
  "post_request ev path b =
     \<lparr>meth = POST, url = BACKEND_URL ev @ path, params = [], json = Some b, timeout = None\<rparr>"

subsection \<open>The health probe (lines 15-25)\<close>

text \<open>
  \<^verbatim>\<open>check_backend\<close> is defined; the only call of it is commented out
  (\<^verbatim>\<open># if not check_backend(): ... st.stop()\<close>), so \<open>render\<close> below does not use it.
\<close>

definition check_backend :: "env \<Rightarrow> bool act" where
  "check_backend ev =
     try_except
       (bnd (send ev (get_request ev ''/health'' [] (Some 10)))
          (\<lambda>response. ret (status_code response = 200)))
       (\<lambda>e. ret False)"

subsection \<open>Sidebar filters (lines 27-39)\<close>

definition default_countries :: "scalar list" where
  "default_countries = [PStr ''Malaysia'', PStr ''Indonesia'', PStr ''Saudi Arabia'']"

text \<open>
  \<^verbatim>\<open>row["country"] for row in response.json()\<close>: a list yields its rows; a dictionary
  yields its keys, which are strings and take no string subscript (TypeError).
\<close>

fun country_values :: "body \<Rightarrow> exn + scalar list" where
  "country_values (Rows rs) = collect (\<lambda>r. subscript r ''country'') rs"
| "country_values (Object d) = (if d = [] then Inr [] else Inl TypeError)"

text \<open>The right-hand side of line 34.\<close>

definition country_options :: "response \<Rightarrow> exn + scalar list" where
  "country_options response =
     (if status_code response = 200
      then and_then (response_json response)
             (\<lambda>b. and_then (country_values b) (\<lambda>cs. Inr (py_set cs)))
      else Inr default_countries)"

definition select_countries :: "env \<Rightarrow> scalar list act" where
  "select_countries ev =
     try_except
       (bnd (send ev (get_request ev ''/query/halal_ecommerce'' [] None))
          (\<lambda>response. lift (country_options response)))
       (\<lambda>e. ret default_countries)"

definition sidebar_filters :: "env \<Rightarrow> scalar list act" where
  "sidebar_filters ev =
     seq (emit (Sidebar_image ''https://via.placeholder.com/200x100?text=Islamic+Economy+Dashboard ''))
    (seq (emit (Sidebar_markdown ''## Filters''))
    (bnd (select_countries ev) (\<lambda>countries.
     seq (emit (Sidebar_multiselect ''Select Countries'' countries countries))
    (seq (emit (Sidebar_slider ''Select Year'' 2015 2025 2020))
    (ret countries)))))"

subsection \<open>Title and navigation (lines 41-53)\<close>

definition title_and_menu :: "unit act" where
  "title_and_menu =
     block
       [emit (Title ''Islamic Digital Economy Dashboard''),
        emit (Markdown ''Explore trends in halal e-commerce, fintech, and digital economy metrics across Muslim-majority countries''),
        emit (Option_menu [''Halal E-commerce'', ''ICT & Fintech'', ''AI Insights'', ''Data Explorer''])]"

subsection \<open>The views (lines 55-144)\<close>

text \<open>Lines 62-74 and 84-97: the chart of an aggregation response.\<close>

definition aggregation_chart ::
  "response \<Rightarrow> string list \<Rightarrow> chart_kind \<Rightarrow> string \<Rightarrow> unit act" where
  "aggregation_chart response heading k t =
     (if status_code response = 200
      then bnd (lift (response_json response)) (\<lambda>data.
             let df = DataFrame (as_list data)
             in if \<not> empty df
                then seq (block (map (\<lambda>h. emit (Markdown h)) heading))
                       (bnd (lift (px_chart k df ''country'' ''total'' ''country'' t None None))
                          (\<lambda>fig. emit (Plotly_chart fig)))
                else ret ())
      else ret ())"

definition halal_view :: "env \<Rightarrow> unit act" where
  "halal_view ev =
     seq (emit (Header ''Halal E-commerce Growth''))
       (bnd (send ev (get_request ev ''/aggregation/halal_ecommerce''
                        [(''metric'', [PStr ''revenue_usd'']), (''group_by'', [PStr ''country''])] None))
          (\<lambda>rev_response. aggregation_chart rev_response [] Bar ''Total Revenue by Country''))"

text \<open>\<^verbatim>\<open>d[k] = v\<close> on a \<^verbatim>\<open>dict\<close>.\<close>

fun dict_set :: "row \<Rightarrow> string \<Rightarrow> scalar \<Rightarrow> row" where
  "dict_set [] k v = [(k, v)]"
| "dict_set ((k', v') # d) k v = (if k' = k then (k, v) # d else (k', v') # dict_set d k v)"

definition is_str :: "scalar \<Rightarrow> bool" where
  "is_str v = (case v of PStr s \<Rightarrow> True | _ \<Rightarrow> False)"

text \<open>
  Line 104, \<^verbatim>\<open>df[c] = df[c].str.replace("%", "").astype(float)\<close>. The column must exist
  (KeyError). The accessor \<^verbatim>\<open>.str\<close> is refused on a column of numbers (AttributeError);
  here it is refused on every column that holds no string. A cell that is no string
  becomes NaN, a string loses every \<^verbatim>\<open>%\<close> and is converted by \<^verbatim>\<open>float\<close> (ValueError
  when it is no numeral).
\<close>

definition percent_to_float :: "scalar \<Rightarrow> exn + scalar" where
  "percent_to_float v =
     (case v of
        PStr s \<Rightarrow> map_sum id PFloat (float_of_str (replace_percent s))
      | _ \<Rightarrow> Inr (PFloat NaN))"

definition strip_percent_column :: "frame \<Rightarrow> string \<Rightarrow> exn + frame" where
  "strip_percent_column df c =
     and_then (collect (\<lambda>r. cell df r c) (rows df)) (\<lambda>cells.
       if \<not> list_ex is_str cells then Inl AttributeError
       else and_then (collect percent_to_float cells) (\<lambda>vals.
              Inr (df\<lparr>rows := map (\<lambda>(r, v). dict_set r c v) (zip (rows df) vals)\<rparr>)))"

definition penetration_chart :: "response \<Rightarrow> unit act" where
  "penetration_chart penetration_response =
     (if status_code penetration_response = 200
      then bnd (lift (response_json penetration_response)) (\<lambda>penetration_data.
             let penetration_df = DataFrame (as_list penetration_data)
             in if \<not> empty penetration_df
                then bnd (lift (strip_percent_column penetration_df ''internet_penetration''))
                       (\<lambda>df'. bnd (lift (px_chart Bar df' ''country'' ''internet_penetration''
                                            ''country'' ''Internet Penetration Rate''
                                            (Some (0, 100)) None))
                                 (\<lambda>fig. emit (Plotly_chart fig)))
                else ret ())
      else ret ())"

definition ict_view :: "env \<Rightarrow> unit act" where
  "ict_view ev =
     seq (bnd (send ev (get_request ev ''/aggregation/ict_services''
                          [(''metric'', [PStr ''gross_output'']), (''group_by'', [PStr ''country''])] None))
            (\<lambda>ict_response.
               aggregation_chart ict_response [''## ICT Services Output''] Area ''Gross Output by Country''))
       (bnd (send ev (get_request ev ''/query/internet_penetration'' [] None)) penetration_chart)"

text \<open>Lines 122-131: what the AI view shows for a response.\<close>

definition ai_answer :: "response \<Rightarrow> unit act" where
  "ai_answer ai_response =
     (if status_code ai_response = 200
      then bnd (lift (response_json ai_response)) (\<lambda>ai_data.
           seq (emit (Markdown ''### AI Analysis''))
          (bnd (lift (body_get ai_data ''answer'' (PStr ''No answer returned.''))) (\<lambda>answer.
           seq (emit (Markdown_value answer))
             (case ai_data of
                Object d \<Rightarrow>
                  (case map_of d ''result'' of
                     None \<Rightarrow> ret ()
                   | Some result \<Rightarrow>
                       bnd (lift (DataFrame_of_scalar result)) (\<lambda>ai_df.
                       seq (emit (Markdown ''### Query Results'')) (emit (Dataframe ai_df))))
              | Rows rs \<Rightarrow> ret ()))))
      else emit (Error (''AI Query Failed: '' @ resp_text ai_response)))"

definition ai_view :: "env \<Rightarrow> ui \<Rightarrow> unit act" where
  "ai_view ev u =
     seq (emit (Header ''AI-Powered Analysis''))
    (seq (emit (Text_input ''Ask a question about the data''))
    (seq (emit (Button ''Get AI Analysis''))
       (if button_pressed u \<and> strip (user_query u) \<noteq> []
        then bnd (send ev (post_request ev ''/ai_query''
                            (Object [(''question'', PStr (user_query u))])))
               ai_answer
        else ret ())))"

definition dataset_options :: "string list" where
  "dataset_options = [''halal_ecommerce'', ''ict_services'', ''internet_penetration'', ''islamic_fintech'']"

definition explorer_view :: "env \<Rightarrow> ui \<Rightarrow> scalar list \<Rightarrow> unit act" where
  "explorer_view ev u countries =
     seq (emit (Header ''Explore Raw Data''))
    (seq (emit (Selectbox ''Select Dataset'' (map PStr dataset_options)))
    (seq (emit (Multiselect ''Filter by Country'' countries countries))
       (bnd (send ev (get_request ev (''/query/'' @ dataset_name (data_type u))
                        [(''countries'', filter_country u countries)] None))
          (\<lambda>data_response.
             if status_code data_response = 200
             then bnd (lift (response_json data_response)) (\<lambda>raw_data.
                    emit (Dataframe (DataFrame (as_list raw_data))))
             else emit (Warning ''No data available for this selection.'')))))"

definition view_section :: "env \<Rightarrow> ui \<Rightarrow> scalar list \<Rightarrow> unit act" where
  "view_section ev u countries =
     (case selected u of
        Halal_Ecommerce \<Rightarrow> halal_view ev
      | ICT_Fintech \<Rightarrow> ict_view ev
      | AI_Insights \<Rightarrow> ai_view ev u
      | Data_Explorer \<Rightarrow> explorer_view ev u countries)"

subsection \<open>Summary metrics (lines 146-168)\<close>

text \<open>\<^verbatim>\<open>response.json() if response.status_code == 200 else dflt\<close>\<close>

definition summary_data :: "response \<Rightarrow> row \<Rightarrow> exn + body" where
  "summary_data response dflt =
     (if status_code response = 200 then response_json response else Inr (Object dflt))"

text \<open>\<^verbatim>\<open>f"${data.get('count', 0) * 1_000_000:,.0f} USD"\<close>\<close>

definition usd_text :: "body \<Rightarrow> exn + string" where
  "usd_text data =
     and_then (body_get data ''count'' (PInt 0)) (\<lambda>c.
     and_then (times_million c) (\<lambda>v.
     and_then (py_format_f True 0 v) (\<lambda>t. Inr (''$'' @ t @ '' USD''))))"

text \<open>The literal \<^verbatim>\<open>75.4\<close>: the double nearest to it.\<close>

definition float_75_4 :: scalar where
  "float_75_4 = PFloat (fl (754 / 10))"

text \<open>\<^verbatim>\<open>f"{data.get('avg_growth_rate', 75.4):.1f}%"\<close>\<close>

definition percent_text :: "body \<Rightarrow> exn + string" where
  "percent_text data =
     and_then (body_get data ''avg_growth_rate'' float_75_4) (\<lambda>g.
     and_then (py_format_f False 1 g) (\<lambda>t. Inr (t @ ''%'')))"

definition count_metric :: "response \<Rightarrow> row \<Rightarrow> exn + string" where
  "count_metric response dflt = and_then (summary_data response dflt) usd_text"

definition growth_metric :: "response \<Rightarrow> exn + string" where
  "growth_metric response =
     and_then (summary_data response [(''avg_growth_rate'', float_75_4)]) percent_text"

definition metric_call ::
  "env \<Rightarrow> string \<Rightarrow> string \<Rightarrow> (response \<Rightarrow> exn + string) \<Rightarrow> unit act" where
  "metric_call ev path label text_of =
     bnd (send ev (get_request ev path [] None)) (\<lambda>response.
     bnd (lift (text_of response)) (\<lambda>t. emit (Metric label t)))"

definition summary_metrics :: "env \<Rightarrow> unit act" where
  "summary_metrics ev =
     block
       [emit (Markdown ''## Key Metrics''),
        metric_call ev ''/summary/halal_ecommerce'' ''Total Halal Revenue''
          (\<lambda>r. count_metric r [(''count'', PInt 0), (''avg_growth_rate'', PInt 0)]),
        metric_call ev ''/summary/islamic_fintech'' ''Total Fintech Transactions''
          (\<lambda>r. count_metric r [(''count'', PInt 0)]),
        metric_call ev ''/summary/ict_services'' ''Total ICT Output''
          (\<lambda>r. count_metric r [(''count'', PInt 0)]),
        metric_call ev ''/summary/household_ict'' ''Average Internet Usage'' growth_metric]"

subsection \<open>Country profile tool (lines 170-185)\<close>

text \<open>\<^verbatim>\<open>pd.DataFrame(response.json() if response.status_code == 200 else [])\<close>\<close>

definition profile_table :: "response \<Rightarrow> exn + frame" where
  "profile_table response =
     (if status_code response = 200
      then and_then (response_json response) DataFrame_of_body
      else Inr (DataFrame []))"

definition profile_call :: "env \<Rightarrow> scalar \<Rightarrow> string \<Rightarrow> string \<Rightarrow> unit act" where
  "profile_call ev c path suffix =
     seq (emit (Markdown_fstring ''### '' c suffix))
       (bnd (send ev (get_request ev path [(''countries'', [c])] None)) (\<lambda>response.
        bnd (lift (profile_table response)) (\<lambda>df. emit (Dataframe df))))"

definition country_profile_tool :: "env \<Rightarrow> ui \<Rightarrow> scalar list \<Rightarrow> unit act" where
  "country_profile_tool ev u countries =
     seq (emit (Markdown ''## Country Profile Tool''))
    (seq (emit (Selectbox ''Select Country for Detailed Analysis'' countries))
       (case country_profile u countries of
          None \<Rightarrow> ret ()
        | Some c \<Rightarrow>
            if truthy c
            then seq (profile_call ev c ''/query/halal_ecommerce'' '' - Halal E-commerce'')
                   (profile_call ev c ''/query/islamic_fintech'' '' - Fintech'')
            else ret ()))"

subsection \<open>Country comparison (lines 187-224)\<close>

text \<open>
  \<^verbatim>\<open>country_totals\<close>: a dictionary from the country to a dictionary from the sector label
  to the total, in insertion order.
\<close>

type_synonym totals = "(scalar \<times> row) list"

definition metrics :: "(string \<times> string) list" where
  "metrics =
     [(''Halal E-commerce'', ''halal_ecommerce''),
      (''Islamic Fintech'', ''islamic_fintech''),
      (''ICT Services'', ''ict_services'')]"

text \<open>Lines 205-207.\<close>

fun add_total :: "totals \<Rightarrow> scalar \<Rightarrow> string \<Rightarrow> scalar \<Rightarrow> totals" where
  "add_total [] country label tot = [(country, [(label, tot)])]"
| "add_total ((k, d) # rest) country label tot =
     (if py_eq k country then (k, dict_set d label tot) # rest
      else (k, d) # add_total rest country label tot)"

text \<open>
  Lines 202-207, the loop over \<^verbatim>\<open>df.iterrows()\<close>. An exception leaves the loop; the
  \<^verbatim>\<open>except\<close> of line 208 keeps what the rows before have stored.
\<close>

fun add_rows :: "frame \<Rightarrow> string \<Rightarrow> row list \<Rightarrow> totals \<Rightarrow> totals" where
  "add_rows df label [] acc = acc"
| "add_rows df label (r # rs) acc =
     (case and_then (cell df r ''country'') (\<lambda>country.
           and_then (and_then (cell df r ''total'') times_million) (\<lambda>tot.
           Inr (country, tot)))
      of Inl e \<Rightarrow> acc
       | Inr (country, tot) \<Rightarrow> add_rows df label rs (add_total acc country label tot))"

text \<open>Lines 199-207 for one response.\<close>

definition add_response :: "response \<Rightarrow> string \<Rightarrow> totals \<Rightarrow> totals" where
  "add_response response label acc =
     (if status_code response = 200
      then (case response_json response of
              Inl e \<Rightarrow> acc
            | Inr data \<Rightarrow> let df = DataFrame (as_list data) in add_rows df label (rows df) acc)
      else acc)"

text \<open>Lines 197-209 for one \<^verbatim>\<open>(label, endpoint)\<close> pair.\<close>

definition compare_endpoint :: "env \<Rightarrow> string \<times> string \<Rightarrow> totals \<Rightarrow> totals act" where
  "compare_endpoint ev m acc =
     try_except
       (bnd (send ev (get_request ev (''/aggregation/'' @ snd m)
                        [(''metric'', [PStr ''count'']), (''group_by'', [PStr ''country''])] None))
          (\<lambda>response. ret (add_response response (fst m) acc)))
       (\<lambda>e. ret acc)"

fun compare_loop :: "env \<Rightarrow> (string \<times> string) list \<Rightarrow> totals \<Rightarrow> totals act" where
  "compare_loop ev [] acc = ret acc"
| "compare_loop ev (m # ms) acc = bnd (compare_endpoint ev m acc) (compare_loop ev ms)"

text \<open>
  Lines 212-213. \<^verbatim>\<open>DataFrame.from_dict(country_totals, orient="index")\<close> has one row for
  each country and one column for each sector label that some country has a total for;
  \<^verbatim>\<open>fillna(0)\<close> puts 0 where a cell is NaN or \<^verbatim>\<open>None\<close>; \<^verbatim>\<open>melt\<close> gives one row for each
  column and country. The columns are taken in the order of their first occurrence.
\<close>

definition sectors :: "totals \<Rightarrow> string list" where
  "sectors acc = remdups (concat (map (\<lambda>(c, d). map fst d) acc))"

definition fillna0 :: "scalar \<Rightarrow> scalar" where
  "fillna0 v = (if v = PFloat NaN \<or> v = PNone then PInt 0 else v)"

definition melted_rows :: "totals \<Rightarrow> row list" where
  "melted_rows acc =
     concat (map (\<lambda>sec. map (\<lambda>(c, d).
        [(''Country'', c), (''Sector'', PStr sec),
         (''Total (USD)'', fillna0 (dict_get d sec (PFloat NaN)))]) acc) (sectors acc))"

definition melted_df :: "totals \<Rightarrow> frame" where
  "melted_df acc = \<lparr>columns = [''Country'', ''Sector'', ''Total (USD)''], rows = melted_rows acc\<rparr>"

text \<open>Lines 211-224.\<close>

definition comparison_chart :: "totals \<Rightarrow> unit act" where
  "comparison_chart country_totals =
     (if country_totals \<noteq> []
      then bnd (lift (px_chart Bar (melted_df country_totals) ''Country'' ''Total (USD)'' ''Sector''
                        ''Total Digital Economy Metrics by Country and Sector'' None (Some ''group'')))
             (\<lambda>compare_fig. emit (Plotly_chart compare_fig))
      else ret ())"

definition country_comparison :: "env \<Rightarrow> unit act" where
  "country_comparison ev =
     seq (emit (Markdown ''## Country-wise Total Comparison Across Sectors''))
       (bnd (compare_loop ev metrics []) comparison_chart)"

subsection \<open>Download section (lines 226-244)\<close>

definition download_section :: "env \<Rightarrow> ui \<Rightarrow> unit act" where
  "download_section ev u =
     seq (emit (Sidebar_markdown ''---''))
    (seq (emit (Sidebar_markdown ''## Download Reports''))
    (seq (emit (Sidebar_selectbox ''Select report to download'' dataset_options))
       (try_except
          (bnd (send ev (get_request ev (''/download/'' @ dataset_name (selected_report u)) [] None))
             (\<lambda>download_response.
                if status_code download_response = 200
                then emit (Sidebar_download_button ''Download CSV'' (resp_text download_response)
                             (dataset_name (selected_report u) @ ''.csv'') ''text/csv'')
                else emit (Sidebar_info ''Report not available for download.'')))
          (\<lambda>e. emit (Sidebar_error ''Error downloading report: '' e)))))"

subsection \<open>The whole script\<close>

definition script :: "env \<Rightarrow> ui \<Rightarrow> unit act" where
  "script ev u =
     bnd (sidebar_filters ev) (\<lambda>countries.
       block
         [title_and_menu,
          view_section ev u countries,
          summary_metrics ev,
          country_profile_tool ev u countries,
          country_comparison ev,
          download_section ev u])"

definition render :: "env \<Rightarrow> ui \<Rightarrow> (exn + unit) \<times> state" where
  "render ev u = script ev u \<lparr>trace = [], page = []\<rparr>"

section \<open>The specification's words, and concrete backends\<close>

text \<open>
  The specification describes line 104 as stripping a trailing \<^verbatim>\<open>%\<close>; this is that
  description, to be compared with \<open>replace_percent\<close>.
\<close>

definition spec_strip_trailing_percent :: "string \<Rightarrow> string" where
  "spec_strip_trailing_percent s = (if s \<noteq> [] \<and> last s = CHR ''%'' then butlast s else s)"

definition status_response :: "int \<Rightarrow> response" where
  "status_response n = \<lparr>status_code = n, body = None, resp_text = []\<rparr>"

definition ok_response :: "body \<Rightarrow> response" where
  "ok_response b = \<lparr>status_code = 200, body = Some b, resp_text = []\<rparr>"

text \<open>A select box left at its first option.\<close>

definition first_option :: "scalar list \<Rightarrow> scalar option" where
  "first_option cs = (case cs of [] \<Rightarrow> None | c # _ \<Rightarrow> Some c)"

text \<open>The widget values of a first pass: nothing typed, nothing pressed.\<close>

definition ui_default :: ui where
  "ui_default =
     \<lparr>selected = Halal_Ecommerce, user_query = [], button_pressed = False,
      data_type = halal_ecommerce, filter_country = (\<lambda>cs. cs),
      country_profile = first_option, selected_report = halal_ecommerce\<rparr>"

text \<open>The AI view with the question \<^verbatim>\<open>" hi "\<close> submitted.\<close>

definition ui_ask :: ui where
  "ui_ask = ui_default\<lparr>selected := AI_Insights, user_query := '' hi '', button_pressed := True\<rparr>"

text \<open>A backend that answers every request with status 500.\<close>

definition ev_all_500 :: env where
  "ev_all_500 =
     \<lparr>BACKEND_URL = ''http://backend:8000'', backend = (\<lambda>n req. Some (status_response 500))\<rparr>"

text \<open>A backend that cannot be reached at all.\<close>

definition ev_unreachable :: env where
  "ev_unreachable = \<lparr>BACKEND_URL = ''http://backend:8000'', backend = (\<lambda>n req. None)\<rparr>"

text \<open>Status 500, except that the connection fails for \<^verbatim>\<open>GET /summary/halal_ecommerce\<close>.\<close>

definition ev_summary_down :: env where
  "ev_summary_down =
     \<lparr>BACKEND_URL = ''http://backend:8000'',
      backend = (\<lambda>n req. if url req = ''http://backend:8000/summary/halal_ecommerce'' then None
                          else Some (status_response 500))\<rparr>"

text \<open>Status 500 everywhere, except that the country profile's query returns one object.\<close>

definition malaysia_row :: row where
  "malaysia_row = [(''country'', PStr ''Malaysia''), (''revenue_usd'', PInt 5)]"

definition ev_profile_object :: env where
  "ev_profile_object =
     \<lparr>BACKEND_URL = ''http://backend:8000'',
      backend = (\<lambda>n req. if url req = ''http://backend:8000/query/halal_ecommerce'' \<and> params req \<noteq> []
                          then Some (ok_response (Object malaysia_row))
                          else Some (status_response 500))\<rparr>"

text \<open>
  Only the aggregation of \<^verbatim>\<open>halal_ecommerce\<close> answers, with the count 2 for Malaysia; the
  other two aggregations answer with status 500.
\<close>

definition ev_one_sector :: env where
  "ev_one_sector =
     \<lparr>BACKEND_URL = ''http://backend:8000'',
      backend = (\<lambda>n req. if url req = ''http://backend:8000/aggregation/halal_ecommerce''
                          then Some (ok_response (Rows [[(''country'', PStr ''Malaysia''), (''total'', PInt 2)]]))
                          else Some (status_response 500))\<rparr>"

text \<open>All three aggregations answer with the count 2 for Malaysia, as one object.\<close>

definition ev_three_sectors :: env where
  "ev_three_sectors =
     \<lparr>BACKEND_URL = ''http://backend:8000'',
      backend = (\<lambda>n req. Some (ok_response (Object [(''country'', PStr ''Malaysia''), (''total'', PInt 2)])))\<rparr>"

text \<open>The filter source answers with three rows, two of them for Malaysia.\<close>

definition country_rows :: "row list" where
  "country_rows =
     [[(''country'', PStr ''Malaysia'')], [(''country'', PStr ''Qatar'')],
      [(''country'', PStr ''Malaysia'')]]"

definition ev_countries :: env where
  "ev_countries =
     \<lparr>BACKEND_URL = ''http://backend:8000'',
      backend = (\<lambda>n req. Some (ok_response (Rows country_rows)))\<rparr>"

definition no_requests :: state where
  "no_requests = \<lparr>trace = [], page = []\<rparr>"

section \<open>What a part of the script sends\<close>

text \<open>
  \<open>sends_only P m\<close>: from every state, \<open>m\<close> appends requests to the trace, each of them
  satisfying \<open>P\<close>, and changes nothing that was recorded before.
\<close>

definition sends_only :: "(request \<Rightarrow> bool) \<Rightarrow> 'a act \<Rightarrow> bool" where
  "sends_only P m = (\<forall>s. \<exists>rs. trace (snd (m s)) = trace s @ rs \<and> list_all P rs)"

text \<open>
  \<open>allows ev u P\<close>: \<open>P\<close> holds for every \<^verbatim>\<open>GET\<close> request to a path other than \<^verbatim>\<open>/health\<close>, and
  for the AI query when the AI view is selected and a question with a character other than
  whitespace has been submitted.
\<close>

definition allows :: "env \<Rightarrow> ui \<Rightarrow> (request \<Rightarrow> bool) \<Rightarrow> bool" where
  "allows ev u P =
     ((\<forall>path ps t. path \<noteq> ''/health'' \<longrightarrow> P (get_request ev path ps t)) \<and>
      (selected u = AI_Insights \<and> button_pressed u \<and> strip (user_query u) \<noteq> []
         \<longrightarrow> P (post_request ev ''/ai_query'' (Object [(''question'', PStr (user_query u))]))))"

section \<open>Evaluation\<close>

lemmas act_defs =
  ret_def lift_def bnd_def seq_def try_except_def emit_def send_def get_request_def
  post_request_def

lemmas section_defs =
  render_def script_def sidebar_filters_def select_countries_def country_options_def
  title_and_menu_def view_section_def halal_view_def aggregation_chart_def
  summary_metrics_def metric_call_def country_profile_tool_def profile_call_def
  profile_table_def country_comparison_def compare_endpoint_def add_response_def
  comparison_chart_def download_section_def metrics_def and_then_def ai_view_def
  ai_answer_def response_json_def

lemmas input_defs =
  ui_default_def ui_ask_def status_response_def ok_response_def first_option_def
  default_countries_def malaysia_row_def no_requests_def

subsection \<open>The summary metrics at their defaults\<close>

lemma usd_text_zero: "usd_text (Object [(''count'', PInt 0)]) = Inr ''$0 USD''"
  by code_simp

lemma usd_text_zero_growth:
  "usd_text (Object [(''count'', PInt 0), (''avg_growth_rate'', PInt 0)]) = Inr ''$0 USD''"
  by code_simp

lemma percent_text_default:
  "percent_text (Object [(''avg_growth_rate'', float_75_4)]) = Inr ''75.4%''"
  by code_simp

lemma count_metric_failure [simp]:
  "status_code r \<noteq> 200 \<Longrightarrow> count_metric r [(''count'', PInt 0)] = Inr ''$0 USD''"
  "status_code r \<noteq> 200 \<Longrightarrow>
     count_metric r [(''count'', PInt 0), (''avg_growth_rate'', PInt 0)] = Inr ''$0 USD''"
  by (simp_all add: count_metric_def summary_data_def and_then_def usd_text_zero
      usd_text_zero_growth)

lemma growth_metric_failure [simp]:
  "status_code r \<noteq> 200 \<Longrightarrow> growth_metric r = Inr ''75.4%''"
  by (simp add: growth_metric_def summary_data_def and_then_def percent_text_default)

section \<open>Failures of backend calls\<close>

text \<open>
  C1. The claim: the failure of any backend call (a transport exception or a status
  other than 200) degrades only the widget that depends on it and never ends the pass; a
  transport exception is caught at every call site, the four summary calls included.

  The script catches transport exceptions at three call sites only (the country selector,
  the comparison loop and the download). At the other sites a status other than 200 is
  handled and a transport exception is not. With a backend that answers 500 to every
  request but cannot be reached for \<^verbatim>\<open>GET /summary/halal_ecommerce\<close>, the pass ends with the
  connection error right after the heading of the metrics; with status 500 for that
  request too, the pass completes.
\<close>

theorem summary_transport_exception_ends_pass:
  "fst (render ev_summary_down ui_default) = Inl ConnectionError
   \<and> last (page (snd (render ev_summary_down ui_default))) = Markdown ''## Key Metrics''
   \<and> fst (render ev_all_500 ui_default) = Inr ()"
  by (simp add: act_defs section_defs input_defs ev_summary_down_def ev_all_500_def)

section \<open>Normalisation of a single object\<close>

lemma normalised_object_one_row: "length (rows (DataFrame (as_list (Object d)))) = 1"
  by (simp add: DataFrame_def)

text \<open>
  C5. The claim: a response that is a single JSON object is normalised to a one-element
  list before tabulation, so that its table has exactly one row, at every call site that
  tabulates a response, the country-profile tables included.

  The five call sites that write \<^verbatim>\<open>data if isinstance(data, list) else [data]\<close> do so
  (\<open>normalised_object_one_row\<close>). The two country-profile tables pass the decoded body to
  \<^verbatim>\<open>pd.DataFrame\<close> as it is: for the object
  \<^verbatim>\<open>{"country": "Malaysia", "revenue_usd": 5}\<close> pandas raises ValueError, and the pass ends.
\<close>

theorem profile_object_is_refused:
  "profile_table (ok_response (Object malaysia_row)) = Inl ValueError
   \<and> fst (render ev_profile_object ui_default) = Inl ValueError"
  by (simp add: act_defs section_defs input_defs ev_profile_object_def)

section \<open>The requests of a render pass\<close>

named_theorems sends_intros

lemma sends_only_ret [sends_intros]: "sends_only P (ret a)"
  by (simp add: sends_only_def ret_def)

lemma sends_only_lift [sends_intros]: "sends_only P (lift m)"
  by (simp add: sends_only_def lift_def)

lemma sends_only_emit [sends_intros]: "sends_only P (emit w)"
  by (simp add: sends_only_def emit_def)

lemma sends_only_send: "P req \<Longrightarrow> sends_only P (send ev req)"
  by (simp add: sends_only_def send_def)

lemma sends_only_bnd [sends_intros]:
  assumes "sends_only P m" and "\<And>a. sends_only P (f a)"
  shows "sends_only P (bnd m f)"
  unfolding sends_only_def
proof
  fix s
  obtain rs where rs: "trace (snd (m s)) = trace s @ rs" "list_all P rs"
    using assms(1) unfolding sends_only_def by blast
  show "\<exists>rs. trace (snd (bnd m f s)) = trace s @ rs \<and> list_all P rs"
  proof (cases "m s")
    case (Pair r s')
    show ?thesis
    proof (cases r)
      case (Inl e)
      with Pair rs show ?thesis by (auto simp: bnd_def)
    next
      case (Inr a)
      obtain rs' where rs': "trace (snd (f a s')) = trace s' @ rs'" "list_all P rs'"
        using assms(2) [of a] unfolding sends_only_def by blast
      with Pair Inr rs show ?thesis by (auto simp: bnd_def)
    qed
  qed
qed

lemma sends_only_seq [sends_intros]:
  "sends_only P m \<Longrightarrow> sends_only P k \<Longrightarrow> sends_only P (seq m k)"
  by (simp add: seq_def sends_only_bnd)

lemma sends_only_block [sends_intros]:
  "(\<And>m. m \<in> set ms \<Longrightarrow> sends_only P m) \<Longrightarrow> sends_only P (block ms)"
  by (induction ms) (auto intro: sends_intros)

lemma sends_only_try [sends_intros]:
  assumes "sends_only P m" and "\<And>e. sends_only P (h e)"
  shows "sends_only P (try_except m h)"
  unfolding sends_only_def
proof
  fix s
  obtain rs where rs: "trace (snd (m s)) = trace s @ rs" "list_all P rs"
    using assms(1) unfolding sends_only_def by blast
  show "\<exists>rs. trace (snd (try_except m h s)) = trace s @ rs \<and> list_all P rs"
  proof (cases "m s")
    case (Pair r s')
    show ?thesis
    proof (cases r)
      case (Inr a)
      with Pair rs show ?thesis by (auto simp: try_except_def)
    next
      case (Inl e)
      obtain rs' where rs': "trace (snd (h e s')) = trace s' @ rs'" "list_all P rs'"
        using assms(2) [of e] unfolding sends_only_def by blast
      with Pair Inl rs show ?thesis by (auto simp: try_except_def)
    qed
  qed
qed

lemma sends_only_get [sends_intros]:
  "allows ev u P \<Longrightarrow> path \<noteq> ''/health'' \<Longrightarrow> sends_only P (send ev (get_request ev path ps t))"
  by (simp add: allows_def sends_only_send)

lemma sends_only_sidebar: "allows ev u P \<Longrightarrow> sends_only P (sidebar_filters ev)"
  unfolding sidebar_filters_def select_countries_def
  by (intro sends_intros; simp)

lemma sends_only_halal: "allows ev u P \<Longrightarrow> sends_only P (halal_view ev)"
  unfolding halal_view_def aggregation_chart_def
  by (auto intro!: sends_intros simp: Let_def)

lemma sends_only_ict: "allows ev u P \<Longrightarrow> sends_only P (ict_view ev)"
  unfolding ict_view_def aggregation_chart_def penetration_chart_def
  by (auto intro!: sends_intros simp: Let_def)

lemma sends_only_ai_answer: "sends_only P (ai_answer r)"
  unfolding ai_answer_def
  by (auto intro!: sends_intros split: body.split option.split)


lemma sends_only_explorer: "allows ev u P \<Longrightarrow> sends_only P (explorer_view ev u cs)"
  unfolding explorer_view_def
  by (cases "data_type u") (auto intro!: sends_intros)

lemma sends_only_summary: "allows ev u P \<Longrightarrow> sends_only P (summary_metrics ev)"
  unfolding summary_metrics_def metric_call_def
  by (auto intro!: sends_intros)

lemma sends_only_profile: "allows ev u P \<Longrightarrow> sends_only P (country_profile_tool ev u cs)"
  unfolding country_profile_tool_def profile_call_def
  by (auto intro!: sends_intros split: option.split)

lemma sends_only_compare_loop: "allows ev u P \<Longrightarrow> sends_only P (compare_loop ev ms acc)"
  by (induction ms arbitrary: acc) (auto intro!: sends_intros simp: compare_endpoint_def)

lemma sends_only_comparison: "allows ev u P \<Longrightarrow> sends_only P (country_comparison ev)"
  unfolding country_comparison_def comparison_chart_def
  by (auto intro!: sends_intros sends_only_compare_loop)

lemma sends_only_download: "allows ev u P \<Longrightarrow> sends_only P (download_section ev u)"
  unfolding download_section_def
  by (cases "selected_report u") (auto intro!: sends_intros)

lemma sends_only_ai:
  "allows ev u P \<Longrightarrow> selected u = AI_Insights \<Longrightarrow> sends_only P (ai_view ev u)"
  unfolding ai_view_def
  by (auto intro!: sends_intros sends_only_ai_answer sends_only_send simp: allows_def)

lemma sends_only_view: "allows ev u P \<Longrightarrow> sends_only P (view_section ev u cs)"
  by (cases "selected u")
     (simp_all add: view_section_def sends_only_halal sends_only_ict sends_only_ai
        sends_only_explorer)

lemma sends_only_title: "sends_only P title_and_menu"
  unfolding title_and_menu_def by (auto intro!: sends_intros)

lemma sends_only_script: "allows ev u P \<Longrightarrow> sends_only P (script ev u)"
  unfolding script_def
  by (auto intro!: sends_intros sends_only_sidebar sends_only_title sends_only_view
        sends_only_summary sends_only_profile sends_only_comparison sends_only_download)

lemma render_requests: "allows ev u P \<Longrightarrow> req \<in> set (trace (snd (render ev u))) \<Longrightarrow> P req"
  using sends_only_script [of ev u P]
  by (auto simp: sends_only_def render_def list_all_iff dest!: spec [of _ "\<lparr>trace = [], page = []\<rparr>"])

lemma allows_not_health: "allows ev u (\<lambda>r. url r \<noteq> BACKEND_URL ev @ ''/health'')"
  by (simp add: allows_def get_request_def post_request_def)

lemma allows_post: "allows ev u (\<lambda>r. meth r = POST \<longrightarrow>
    (selected u = AI_Insights \<and> button_pressed u \<and> strip (user_query u) \<noteq> []) \<and>
    r = post_request ev ''/ai_query'' (Object [(''question'', PStr (user_query u))]))"
  by (simp add: allows_def get_request_def)

lemma check_backend_result:
  "fst (check_backend ev s) =
     Inr (case backend ev (length (trace s)) (get_request ev ''/health'' [] (Some 10)) of
            None \<Rightarrow> False | Some r \<Rightarrow> status_code r = 200)"
  by (simp add: check_backend_def act_defs split: option.split)

lemma trace_all_500:
  "map url (trace (snd (render ev_all_500 ui_default))) =
  [''http://backend:8000/query/halal_ecommerce'', ''http://backend:8000/aggregation/halal_ecommerce'',
   ''http://backend:8000/summary/halal_ecommerce'', ''http://backend:8000/summary/islamic_fintech'',
   ''http://backend:8000/summary/ict_services'', ''http://backend:8000/summary/household_ict'',
   ''http://backend:8000/query/halal_ecommerce'', ''http://backend:8000/query/islamic_fintech'',
   ''http://backend:8000/aggregation/halal_ecommerce'', ''http://backend:8000/aggregation/islamic_fintech'',
   ''http://backend:8000/aggregation/ict_services'', ''http://backend:8000/download/halal_ecommerce'']"
  by (simp add: act_defs section_defs input_defs ev_all_500_def)

lemma allows_any: "allows ev u (\<lambda>r. True)"
  by (simp add: allows_def)

lemma trace_grows: "sends_only P m \<Longrightarrow> set (trace s) \<subseteq> set (trace (snd (m s)))"
  unfolding sends_only_def by (metis Un_upper1 set_append)

lemma in_trace_bnd:
  assumes "x \<in> set (trace (snd (m s)))" and "\<And>a. sends_only P (f a)"
  shows "x \<in> set (trace (snd (bnd m f s)))"
proof (cases "m s")
  case (Pair r s')
  show ?thesis
  proof (cases r)
    case (Inl e)
    with Pair assms(1) show ?thesis by (simp add: bnd_def)
  next
    case (Inr a)
    with Pair assms(1) trace_grows [OF assms(2), of s' a] show ?thesis
      by (auto simp: bnd_def)
  qed
qed

lemma sidebar_filters_returns: "\<exists>cs. fst (sidebar_filters ev s) = Inr cs"
  by (simp add: sidebar_filters_def select_countries_def act_defs
      split: option.split sum.split prod.split)

lemma ai_view_sends:
  assumes "button_pressed u" and "strip (user_query u) \<noteq> []"
  shows "post_request ev ''/ai_query'' (Object [(''question'', PStr (user_query u))])
           \<in> set (trace (snd (ai_view ev u s)))"
proof -
  let ?req = "post_request ev ''/ai_query'' (Object [(''question'', PStr (user_query u))])"
  have "?req \<in> set (trace (snd (bnd (send ev ?req) ai_answer s')))" for s'
    by (rule in_trace_bnd [where P = "\<lambda>r. True"]) (simp_all add: send_def sends_only_ai_answer)
  with assms show ?thesis
    by (simp add: ai_view_def seq_def bnd_def emit_def)
qed

lemma ai_query_sent:
  assumes "selected u = AI_Insights" and "button_pressed u" and "strip (user_query u) \<noteq> []"
  shows "post_request ev ''/ai_query'' (Object [(''question'', PStr (user_query u))])
           \<in> set (trace (snd (render ev u)))"
proof -
  let ?req = "post_request ev ''/ai_query'' (Object [(''question'', PStr (user_query u))])"
  obtain cs where cs: "fst (sidebar_filters ev \<lparr>trace = [], page = []\<rparr>) = Inr cs"
    using sidebar_filters_returns by blast
  define s1 where "s1 = snd (sidebar_filters ev \<lparr>trace = [], page = []\<rparr>)"
  have side: "sidebar_filters ev \<lparr>trace = [], page = []\<rparr> = (Inr cs, s1)"
    using cs by (simp add: s1_def prod_eq_iff)
  obtain s2 where s2: "title_and_menu s1 = (Inr (), s2)"
    by (simp add: title_and_menu_def act_defs)
  have rest: "sends_only (\<lambda>r. True)
     (block [summary_metrics ev, country_profile_tool ev u cs, country_comparison ev,
             download_section ev u])"
    by (auto intro!: sends_intros sends_only_summary sends_only_profile sends_only_comparison
          sends_only_download allows_any)
  have "?req \<in> set (trace (snd (ai_view ev u s2)))"
    using assms by (simp add: ai_view_sends)
  then have "?req \<in> set (trace (snd (bnd (ai_view ev u) (\<lambda>_.
     block [summary_metrics ev, country_profile_tool ev u cs, country_comparison ev,
            download_section ev u]) s2)))"
    using rest by (rule in_trace_bnd)
  then show ?thesis
    using side s2 assms(1)
    by (simp add: render_def script_def bnd_def seq_def view_section_def)
qed

section \<open>The health probe\<close>

text \<open>
  C6. The claim: on every render cycle the dashboard performs the health probe
  \<^verbatim>\<open>GET /health\<close> with a bounded timeout; its result is advisory only, computed but never
  consulted, and does not gate rendering.

  The first half fails: the pass against the backend that answers 500 to everything issues
  twelve requests, none of them to \<^verbatim>\<open>/health\<close>.
\<close>

theorem health_probe_counterexample:
  "length (trace (snd (render ev_all_500 ui_default))) = 12
   \<and> ''http://backend:8000/health'' \<notin> set (map url (trace (snd (render ev_all_500 ui_default))))"
proof -
  have "length (map url (trace (snd (render ev_all_500 ui_default)))) = 12"
    unfolding trace_all_500 by simp
  moreover have "''http://backend:8000/health'' \<notin> set (map url (trace (snd (render ev_all_500 ui_default))))"
    unfolding trace_all_500 by simp
  ultimately show ?thesis by simp
qed

text \<open>
  C6, amended. The health probe is defined (\<^verbatim>\<open>GET /health\<close> with a timeout of 10 seconds,
  true for status 200, false for any other status and for an exception), but its only
  call is commented out: no render pass, whatever the backend and the widget values,
  issues a request to \<^verbatim>\<open>/health\<close>, so nothing is gated by it.
\<close>

theorem health_probe_defined_not_called:
  "fst (check_backend ev s) =
     Inr (case backend ev (length (trace s)) (get_request ev ''/health'' [] (Some 10)) of
            None \<Rightarrow> False | Some r \<Rightarrow> status_code r = 200)
   \<and> (\<forall>req \<in> set (trace (snd (render ev u))). url req \<noteq> BACKEND_URL ev @ ''/health'')"
  using render_requests [OF allows_not_health] check_backend_result by blast

theorem health_probe_defined_not_called_witness:
  "fst (check_backend ev_all_500 no_requests) = Inr False
   \<and> length (trace (snd (render ev_all_500 ui_default))) = 12
   \<and> BACKEND_URL ev_all_500 @ ''/health''
         \<notin> url ` set (trace (snd (render ev_all_500 ui_default)))"
proof -
  have "length (map url (trace (snd (render ev_all_500 ui_default)))) = 12"
    unfolding trace_all_500 by simp
  moreover have "fst (check_backend ev_all_500 no_requests) = Inr False"
    using health_probe_defined_not_called [of ev_all_500 no_requests ui_default]
    by (simp add: ev_all_500_def input_defs)
  ultimately show ?thesis
    using health_probe_defined_not_called [of ev_all_500 no_requests ui_default]
    by auto
qed

section \<open>The AI query\<close>

text \<open>
  C8. The \<^verbatim>\<open>POST /ai_query\<close> request is issued if and only if the user submits, by the
  button of the AI view, a query that is not empty after whitespace is trimmed.
\<close>

theorem ai_query_issued_iff:
  "(\<exists>req \<in> set (trace (snd (render ev u))). meth req = POST \<and> url req = BACKEND_URL ev @ ''/ai_query'')
   \<longleftrightarrow> (selected u = AI_Insights \<and> button_pressed u \<and> strip (user_query u) \<noteq> [])"
proof
  assume "\<exists>req \<in> set (trace (snd (render ev u))). meth req = POST \<and> url req = BACKEND_URL ev @ ''/ai_query''"
  then show "selected u = AI_Insights \<and> button_pressed u \<and> strip (user_query u) \<noteq> []"
    using render_requests [OF allows_post, of _ ev u] by blast
next
  assume "selected u = AI_Insights \<and> button_pressed u \<and> strip (user_query u) \<noteq> []"
  then have "post_request ev ''/ai_query'' (Object [(''question'', PStr (user_query u))])
           \<in> set (trace (snd (render ev u)))"
    by (simp add: ai_query_sent)
  then show "\<exists>req \<in> set (trace (snd (render ev u))). meth req = POST \<and> url req = BACKEND_URL ev @ ''/ai_query''"
    by (rule bexI [rotated]) (simp add: post_request_def)
qed


theorem ai_query_issued_iff_witness:
  "selected ui_ask = AI_Insights \<and> button_pressed ui_ask \<and> strip (user_query ui_ask) \<noteq> []
   \<and> (\<exists>req \<in> set (trace (snd (render ev_all_500 ui_ask))).
          meth req = POST \<and> url req = BACKEND_URL ev_all_500 @ ''/ai_query'')
   \<and> \<not> (\<exists>req \<in> set (trace (snd (render ev_all_500 (ui_ask\<lparr>user_query := ''   ''\<rparr>)))).
          meth req = POST \<and> url req = BACKEND_URL ev_all_500 @ ''/ai_query'')"
proof -
  have hi: "strip '' hi '' = ''hi''" and blank: "strip ''   '' = []"
    by code_simp+
  show ?thesis
    using ai_query_issued_iff [of ev_all_500 ui_ask]
      ai_query_issued_iff [of ev_all_500 "ui_ask\<lparr>user_query := ''   ''\<rparr>"]
    by (simp add: ui_ask_def hi blank)
qed

text \<open>
  C10. The body of the request holds the text as the user entered it: trimming decides
  whether the request is sent, the question is sent untrimmed. Every \<^verbatim>\<open>POST\<close> of a pass is
  the AI query with the input as its \<^verbatim>\<open>question\<close>.
\<close>

theorem ai_query_carries_input_untrimmed:
  "req \<in> set (trace (snd (render ev u))) \<Longrightarrow> meth req = POST \<Longrightarrow>
   url req = BACKEND_URL ev @ ''/ai_query''
   \<and> json req = Some (Object [(''question'', PStr (user_query u))])"
  using render_requests [OF allows_post, of req ev u] by (simp add: post_request_def)


theorem ai_query_carries_input_untrimmed_witness:
  "post_request ev_all_500 ''/ai_query'' (Object [(''question'', PStr '' hi '')])
     \<in> set (trace (snd (render ev_all_500 ui_ask)))
   \<and> json (post_request ev_all_500 ''/ai_query'' (Object [(''question'', PStr '' hi '')]))
       = Some (Object [(''question'', PStr '' hi '')])"
proof -
  have hi: "strip '' hi '' = ''hi''"
    by code_simp
  have sent: "post_request ev_all_500 ''/ai_query'' (Object [(''question'', PStr (user_query ui_ask))])
     \<in> set (trace (snd (render ev_all_500 ui_ask)))"
    by (rule ai_query_sent) (simp_all add: ui_ask_def hi)
  then show ?thesis
    using ai_query_carries_input_untrimmed [OF sent] by (simp add: ui_ask_def post_request_def)
qed

section \<open>The country comparison\<close>

lemma compare_endpoint_eq:
  "compare_endpoint ev m acc s =
     (Inr (case backend ev (length (trace s))
                 (get_request ev (''/aggregation/'' @ snd m)
                    [(''metric'', [PStr ''count'']), (''group_by'', [PStr ''country''])] None) of
             None \<Rightarrow> acc | Some r \<Rightarrow> add_response r (fst m) acc),
      s\<lparr>trace := trace s @ [get_request ev (''/aggregation/'' @ snd m)
                    [(''metric'', [PStr ''count'']), (''group_by'', [PStr ''country''])] None]\<rparr>)"
  by (simp add: compare_endpoint_def act_defs split: option.split)

lemma compare_loop_state:
  "\<exists>acc' rs. compare_loop ev ms acc s = (Inr acc', s\<lparr>trace := trace s @ rs\<rparr>)"
proof (induction ms arbitrary: acc s)
  case Nil
  show ?case by (simp add: ret_def) (rule exI [of _ "[]"], simp)
next
  case (Cons m ms)
  obtain a r where "compare_endpoint ev m acc s = (Inr a, s\<lparr>trace := trace s @ [r]\<rparr>)"
    using compare_endpoint_eq by blast
  moreover obtain acc' rs where
    "compare_loop ev ms a (s\<lparr>trace := trace s @ [r]\<rparr>)
       = (Inr acc', s\<lparr>trace := trace s @ [r]\<rparr>\<lparr>trace := trace (s\<lparr>trace := trace s @ [r]\<rparr>) @ rs\<rparr>)"
    using Cons.IH by blast
  ultimately show ?case
    by (simp add: bnd_def) (rule exI [of _ "r # rs"], simp)
qed

lemma compare_loop_trace_only:
  "trace s = trace s' \<Longrightarrow> fst (compare_loop ev ms acc s) = fst (compare_loop ev ms acc s')"
proof (induction ms arbitrary: acc s s')
  case Nil
  show ?case by (simp add: ret_def)
next
  case (Cons m ms)
  let ?req = "get_request ev (''/aggregation/'' @ snd m)
                [(''metric'', [PStr ''count'']), (''group_by'', [PStr ''country''])] None"
  let ?a = "case backend ev (length (trace s)) ?req of
              None \<Rightarrow> acc | Some r \<Rightarrow> add_response r (fst m) acc"
  have "fst (compare_loop ev ms ?a (s\<lparr>trace := trace s @ [?req]\<rparr>))
        = fst (compare_loop ev ms ?a (s'\<lparr>trace := trace s' @ [?req]\<rparr>))"
    by (rule Cons.IH) (simp add: Cons.prems)
  then show ?case
    by (simp add: bnd_def compare_endpoint_eq Cons.prems)
qed

text \<open>
  C9. If the country totals are empty after the three aggregation calls (every call failed
  or returned no rows), the comparison section shows its heading and nothing else: no
  chart and no message.
\<close>

theorem empty_totals_no_chart:
  "fst (compare_loop ev metrics [] s) = Inr [] \<Longrightarrow>
   fst (country_comparison ev s) = Inr ()
   \<and> page (snd (country_comparison ev s))
       = page s @ [Markdown ''## Country-wise Total Comparison Across Sectors'']"
proof -
  assume empty: "fst (compare_loop ev metrics [] s) = Inr []"
  let ?s' = "s\<lparr>page := page s @ [Markdown ''## Country-wise Total Comparison Across Sectors'']\<rparr>"
  obtain acc' rs where loop: "compare_loop ev metrics [] ?s' = (Inr acc', ?s'\<lparr>trace := trace ?s' @ rs\<rparr>)"
    using compare_loop_state by blast
  have "fst (compare_loop ev metrics [] ?s') = Inr []"
    using empty compare_loop_trace_only [of ?s' s ev metrics "[]"] by simp
  with loop have "acc' = []" by simp
  with loop show ?thesis
    by (simp add: country_comparison_def comparison_chart_def seq_def bnd_def emit_def ret_def)
qed

theorem empty_totals_no_chart_witness:
  "fst (compare_loop ev_all_500 metrics [] no_requests) = Inr []
   \<and> fst (country_comparison ev_all_500 no_requests) = Inr ()
   \<and> page (snd (country_comparison ev_all_500 no_requests))
       = [Markdown ''## Country-wise Total Comparison Across Sectors'']"
proof -
  have h: "fst (compare_loop ev_all_500 metrics [] no_requests) = Inr []"
    by (simp add: metrics_def compare_endpoint_eq bnd_def ret_def ev_all_500_def add_response_def
        status_response_def)
  show ?thesis
    using h empty_totals_no_chart [OF h] by (simp add: no_requests_def)
qed

section \<open>The country selector\<close>

lemma py_eq_str [simp]: "py_eq y (PStr c) \<longleftrightarrow> y = PStr c"
  by (cases "(y, PStr c)" rule: py_eq.cases) (auto split: option.splits)

lemma py_set_step_strs:
  assumes "\<forall>x\<in>set xs. is_str x" and "distinct acc"
  shows "distinct (foldl (\<lambda>acc x. if list_ex (\<lambda>y. py_eq y x) acc then acc else acc @ [x]) acc xs)
       \<and> set (foldl (\<lambda>acc x. if list_ex (\<lambda>y. py_eq y x) acc then acc else acc @ [x]) acc xs)
           = set acc \<union> set xs"
  using assms
proof (induction xs arbitrary: acc)
  case Nil
  then show ?case by simp
next
  case (Cons x xs)
  then obtain c where x: "x = PStr c"
    by (auto simp: is_str_def split: scalar.splits)
  have ex: "list_ex (\<lambda>y. py_eq y x) acc \<longleftrightarrow> x \<in> set acc"
    by (simp add: x list_ex_iff)
  show ?case
  proof (cases "x \<in> set acc")
    case True
    with Cons ex show ?thesis by auto
  next
    case False
    with Cons.prems have "distinct (acc @ [x])" by simp
    with Cons.IH [of "acc @ [x]"] Cons.prems False ex show ?thesis by auto
  qed
qed

lemma py_set_strs:
  "\<forall>x\<in>set xs. is_str x \<Longrightarrow> distinct (py_set xs) \<and> set (py_set xs) = set xs"
  unfolding py_set_def using py_set_step_strs [of xs "[]"] by simp

lemma collect_all:
  "\<forall>x\<in>set xs. f x = Inr (g x) \<Longrightarrow> collect f xs = Inr (map g xs)"
  by (induction xs) (simp_all add: and_then_def)

lemma country_values_rows:
  assumes "\<forall>row\<in>set rs. \<exists>c. map_of row ''country'' = Some (PStr c)"
  shows "country_values (Rows rs) = Inr (map (\<lambda>row. the (map_of row ''country'')) rs)"
  using assms by (auto intro!: collect_all simp: subscript_def)

text \<open>
  C4. Whenever the filter-source call \<^verbatim>\<open>GET /query/halal_ecommerce\<close> fails (a status other
  than 200, or a transport exception), the option list of the country selector is exactly
  Malaysia, Indonesia, Saudi Arabia; on success it is the distinct set of the \<^verbatim>\<open>country\<close>
  values of the returned rows. (Success: a list of rows that each have a string as their
  \<^verbatim>\<open>country\<close>. The order of the options is the iteration order of a Python set, which the
  statement leaves open.)
\<close>

theorem country_selector_options:
  "(backend ev (length (trace s)) (get_request ev ''/query/halal_ecommerce'' [] None) = None
      \<or> (\<exists>r. backend ev (length (trace s)) (get_request ev ''/query/halal_ecommerce'' [] None) = Some r
               \<and> status_code r \<noteq> 200)
    \<longrightarrow> fst (sidebar_filters ev s) = Inr [PStr ''Malaysia'', PStr ''Indonesia'', PStr ''Saudi Arabia'']
        \<and> Sidebar_multiselect ''Select Countries''
            [PStr ''Malaysia'', PStr ''Indonesia'', PStr ''Saudi Arabia'']
            [PStr ''Malaysia'', PStr ''Indonesia'', PStr ''Saudi Arabia'']
          \<in> set (page (snd (sidebar_filters ev s))))
   \<and> (backend ev (length (trace s)) (get_request ev ''/query/halal_ecommerce'' [] None) = Some r
      \<and> status_code r = 200 \<and> body r = Some (Rows rs)
      \<and> (\<forall>row\<in>set rs. \<exists>c. map_of row ''country'' = Some (PStr c))
    \<longrightarrow> (\<exists>cs. fst (sidebar_filters ev s) = Inr cs
            \<and> Sidebar_multiselect ''Select Countries'' cs cs \<in> set (page (snd (sidebar_filters ev s)))
            \<and> distinct cs
            \<and> set cs = {v. \<exists>row\<in>set rs. map_of row ''country'' = Some v}))"
proof (intro conjI impI)
  assume "backend ev (length (trace s)) (get_request ev ''/query/halal_ecommerce'' [] None) = None
      \<or> (\<exists>r. backend ev (length (trace s)) (get_request ev ''/query/halal_ecommerce'' [] None) = Some r
               \<and> status_code r \<noteq> 200)"
  then show "fst (sidebar_filters ev s) = Inr [PStr ''Malaysia'', PStr ''Indonesia'', PStr ''Saudi Arabia'']"
    and "Sidebar_multiselect ''Select Countries''
            [PStr ''Malaysia'', PStr ''Indonesia'', PStr ''Saudi Arabia'']
            [PStr ''Malaysia'', PStr ''Indonesia'', PStr ''Saudi Arabia'']
          \<in> set (page (snd (sidebar_filters ev s)))"
    by (auto simp: sidebar_filters_def select_countries_def country_options_def act_defs
        default_countries_def)
next
  assume a: "backend ev (length (trace s)) (get_request ev ''/query/halal_ecommerce'' [] None) = Some r
      \<and> status_code r = 200 \<and> body r = Some (Rows rs)
      \<and> (\<forall>row\<in>set rs. \<exists>c. map_of row ''country'' = Some (PStr c))"
  let ?vs = "map (\<lambda>row. the (map_of row ''country'')) rs"
  have vals: "country_values (Rows rs) = Inr ?vs"
    by (rule country_values_rows) (use a in simp)
  have strs: "\<forall>x\<in>set ?vs. is_str x"
    using a by (auto simp: is_str_def)
  have opts: "country_options r = Inr (py_set ?vs)"
    using a vals by (simp add: country_options_def response_json_def and_then_def)
  have set_vs: "set ?vs = {v. \<exists>row\<in>set rs. map_of row ''country'' = Some v}"
    using a by force
  have "fst (sidebar_filters ev s) = Inr (py_set ?vs)"
    and "Sidebar_multiselect ''Select Countries'' (py_set ?vs) (py_set ?vs)
           \<in> set (page (snd (sidebar_filters ev s)))"
    using a opts by (simp_all add: sidebar_filters_def select_countries_def act_defs)
  with py_set_strs [OF strs] set_vs
  show "\<exists>cs. fst (sidebar_filters ev s) = Inr cs
            \<and> Sidebar_multiselect ''Select Countries'' cs cs \<in> set (page (snd (sidebar_filters ev s)))
            \<and> distinct cs
            \<and> set cs = {v. \<exists>row\<in>set rs. map_of row ''country'' = Some v}"
    by auto
qed

theorem country_selector_options_witness:
  "fst (sidebar_filters ev_unreachable no_requests)
     = Inr [PStr ''Malaysia'', PStr ''Indonesia'', PStr ''Saudi Arabia'']
   \<and> fst (sidebar_filters ev_all_500 no_requests)
     = Inr [PStr ''Malaysia'', PStr ''Indonesia'', PStr ''Saudi Arabia'']
   \<and> (\<exists>cs. fst (sidebar_filters ev_countries no_requests) = Inr cs
          \<and> Sidebar_multiselect ''Select Countries'' cs cs
               \<in> set (page (snd (sidebar_filters ev_countries no_requests)))
          \<and> distinct cs \<and> set cs = {PStr ''Malaysia'', PStr ''Qatar''})"
proof -
  have "{v. \<exists>row\<in>set country_rows. map_of row ''country'' = Some v}
        = {PStr ''Malaysia'', PStr ''Qatar''}"
    by (auto simp: country_rows_def)
  moreover have "\<forall>row\<in>set country_rows. \<exists>c. map_of row ''country'' = Some (PStr c)"
    by (simp add: country_rows_def)
  ultimately show ?thesis
    using country_selector_options [of ev_unreachable no_requests]
      country_selector_options [of ev_all_500 no_requests]
      country_selector_options [of ev_countries no_requests "ok_response (Rows country_rows)"
        country_rows]
    by (simp add: ev_unreachable_def ev_all_500_def ev_countries_def status_response_def
        ok_response_def)
qed

end
